theory Spec2Isabelle
  imports Complex_Main "HOL-Library.Multiset"
begin

unbundle bit_operations_syntax

section \<open>Python values\<close>

text \<open>
  Exceptions are values: a function that can raise returns \<open>py_error + 'a\<close>, with
  \<open>Inl\<close> for the exception.

  Python floats are modelled as real numbers and \<open>Decimal\<close> values as rationals: the
  comparisons and the arithmetic are those of the source; the rounding of floats to
  53 bits and of \<open>Decimal\<close> results to the context precision of 28 digits is outside
  the model.
\<close>

datatype py_error = ZeroDivisionError | ValueError | TypeError

type_synonym Decimal = rat

text \<open>\<open>float(d)\<close> for a \<open>Decimal\<close>.\<close>

definition float_of_Decimal :: "Decimal \<Rightarrow> real" where
  "float_of_Decimal d = of_rat d"

text \<open>\<open>a / b\<close> on numbers: true division raises on a zero divisor.\<close>

definition py_truediv :: "real \<Rightarrow> real \<Rightarrow> py_error + real" where
  "py_truediv a b = (if b = 0 then Inl ZeroDivisionError else Inr (a / b))"

text \<open>\<open>d.get(k, default)\<close>.\<close>

definition dict_get :: "('k \<rightharpoonup> 'v) \<Rightarrow> 'k \<Rightarrow> 'v \<Rightarrow> 'v" where
  "dict_get d k dflt = (case d k of None \<Rightarrow> dflt | Some v \<Rightarrow> v)"

text \<open>\<open>max(xs) if xs else default\<close>: the builtin keeps the first of equal maxima.\<close>

definition py_max_or :: "'a::linorder list \<Rightarrow> 'a \<Rightarrow> 'a" where
  "py_max_or xs dflt = (case xs of [] \<Rightarrow> dflt | x # rest \<Rightarrow> fold max rest x)"

text \<open>
  \<open>xs.sort(key=key, reverse=True)\<close>. The builtin sort is stable, and with
  \<open>reverse=True\<close> it reverses the list, sorts it ascending and stably, and reverses the
  result, so that equal keys keep their input order. \<open>sort_key\<close> is the stable
  ascending sort of the library.
\<close>

definition py_sort_reverse :: "('a \<Rightarrow> 'k::linorder) \<Rightarrow> 'a list \<Rightarrow> 'a list" where
  "py_sort_reverse key xs = rev (sort_key key (rev xs))"

section \<open>Bridge adapters: \<open>app/services/bridges/base.py\<close>\<close>

text \<open>
  The part of \<open>BaseBridge\<close> that \<open>supports_route\<close> reads: the attributes set by
  \<open>__init__\<close>. Chain identifiers are Python integers.
\<close>

record BaseBridge =
  name :: string
  protocol :: string
  supported_chains :: "int list"

text \<open>
  \<open>return (source_chain_id in self.supported_chains and
           dest_chain_id in self.supported_chains and
           source_chain_id != dest_chain_id)\<close>
\<close>

definition supports_route :: "BaseBridge \<Rightarrow> int \<Rightarrow> int \<Rightarrow> bool" where
  "supports_route self source_chain_id dest_chain_id =
     (source_chain_id \<in> set (supported_chains self) \<and>
      dest_chain_id \<in> set (supported_chains self) \<and>
      source_chain_id \<noteq> dest_chain_id)"


text \<open>The dataclasses of \<open>base.py\<close> that a quote is made of.\<close>

record RouteParams =
  source_chain :: string
  destination_chain :: string
  source_token :: string
  destination_token :: string
  amount :: string
  user_address :: "string option"

record FeeBreakdown =
  bridge_fee_usd :: Decimal
  gas_cost_source_usd :: Decimal
  gas_cost_destination_usd :: Decimal
  total_cost_usd :: Decimal
  slippage_percentage :: "Decimal option"

record BridgeQuote =
  bridge_name :: string
  quote_protocol :: string
  route_type :: string
  estimated_time_seconds :: int
  fee_breakdown :: FeeBreakdown
  success_rate :: Decimal
  steps :: "(string \<times> string) list list"
  requires_approval :: bool
  minimum_amount :: "string option"
  maximum_amount :: "string option"
  quote_id :: "string option"
  metadata :: "(string \<times> string) list option"

section \<open>Route discovery: \<open>app/services/route_discovery.py\<close>\<close>

subsection \<open>Ranking\<close>

text \<open>The \<open>weights\<close> dictionary of \<open>_rank_routes\<close>, one field per key.\<close>

record Weights =
  cost :: real
  speed :: real
  reliability :: real
  liquidity :: real

definition weights_of :: "(string \<rightharpoonup> real) \<Rightarrow> Weights" where
  "weights_of preferences =
     \<lparr>cost = dict_get preferences ''cost_weight'' 0.40,
      speed = dict_get preferences ''speed_weight'' 0.30,
      reliability = dict_get preferences ''reliability_weight'' 0.20,
      liquidity = dict_get preferences ''liquidity_weight'' 0.10\<rparr>"

text \<open>
  The body of the scoring loop for one quote. Both divisions are true divisions and
  raise \<open>ZeroDivisionError\<close> on a zero maximum.
\<close>

definition score_quote :: "Weights \<Rightarrow> real \<Rightarrow> int \<Rightarrow> BridgeQuote \<Rightarrow> py_error + real" where
  "score_quote weights max_cost max_time quote =
     (case py_truediv (float_of_Decimal (total_cost_usd (fee_breakdown quote))) max_cost of
        Inl e \<Rightarrow> Inl e
      | Inr cost_ratio \<Rightarrow>
          (case py_truediv (of_int (estimated_time_seconds quote)) (of_int max_time) of
             Inl e \<Rightarrow> Inl e
           | Inr time_ratio \<Rightarrow>
               (let cost_score = 100 * (1 - cost_ratio);
                    speed_score = 100 * (1 - time_ratio);
                    reliability_score = float_of_Decimal (success_rate quote);
                    liquidity_score = 100
                in Inr (cost_score * cost weights +
                        speed_score * speed weights +
                        reliability_score * reliability weights +
                        liquidity_score * liquidity weights))))"

text \<open>The loop \<open>for quote in quotes: ... scored_quotes.append((total_score, quote))\<close>.\<close>

fun score_quotes ::
  "Weights \<Rightarrow> real \<Rightarrow> int \<Rightarrow> BridgeQuote list \<Rightarrow> py_error + (real \<times> BridgeQuote) list" where
  "score_quotes weights max_cost max_time [] = Inr []"
| "score_quotes weights max_cost max_time (quote # quotes) =
     (case score_quote weights max_cost max_time quote of
        Inl e \<Rightarrow> Inl e
      | Inr total_score \<Rightarrow>
          (case score_quotes weights max_cost max_time quotes of
             Inl e \<Rightarrow> Inl e
           | Inr scored \<Rightarrow> Inr ((total_score, quote) # scored)))"

definition rank_routes :: "BridgeQuote list \<Rightarrow> (string \<rightharpoonup> real) \<Rightarrow> py_error + BridgeQuote list" where
  "rank_routes quotes preferences =
     (if quotes = [] then Inr []
      else
        let weights = weights_of preferences;
            costs = map (\<lambda>q. float_of_Decimal (total_cost_usd (fee_breakdown q))) quotes;
            times = map estimated_time_seconds quotes;
            max_cost = py_max_or costs 1;
            max_time = py_max_or times 1
        in case score_quotes weights max_cost max_time quotes of
             Inl e \<Rightarrow> Inl e
           | Inr scored_quotes \<Rightarrow> Inr (map snd (py_sort_reverse fst scored_quotes)))"

text \<open>
  The ranking formula in the words of the specification, for a quote \<open>q\<close> of the batch
  \<open>quotes\<close>: each score against the maximum of the batch.
\<close>

definition spec_cost_score :: "BridgeQuote list \<Rightarrow> BridgeQuote \<Rightarrow> real" where
  "spec_cost_score quotes q =
     100 * (1 - of_rat (total_cost_usd (fee_breakdown q)) /
                Max (set (map (\<lambda>x. of_rat (total_cost_usd (fee_breakdown x))) quotes)))"

definition spec_speed_score :: "BridgeQuote list \<Rightarrow> BridgeQuote \<Rightarrow> real" where
  "spec_speed_score quotes q =
     100 * (1 - of_int (estimated_time_seconds q) /
                of_int (Max (set (map estimated_time_seconds quotes))))"

definition spec_weighted_total :: "BridgeQuote list \<Rightarrow> (string \<rightharpoonup> real) \<Rightarrow> BridgeQuote \<Rightarrow> real" where
  "spec_weighted_total quotes prefs q =
     dict_get prefs ''cost_weight'' 0.40 * spec_cost_score quotes q +
     dict_get prefs ''speed_weight'' 0.30 * spec_speed_score quotes q +
     dict_get prefs ''reliability_weight'' 0.20 * of_rat (success_rate q) +
     dict_get prefs ''liquidity_weight'' 0.10 * 100"

subsection \<open>Cache key\<close>

text \<open>
  \<open>hashlib.md5\<close>, as RFC 1321 defines it. The 32-bit words are natural numbers below
  \<open>2 ^ 32\<close>, every sum taken modulo \<open>2 ^ 32\<close>; a message is a list of bytes.
\<close>

definition md5_s :: "nat list" where
  "md5_s = [7, 12, 17, 22, 7, 12, 17, 22, 7, 12, 17, 22, 7, 12, 17, 22,
            5, 9, 14, 20, 5, 9, 14, 20, 5, 9, 14, 20, 5, 9, 14, 20,
            4, 11, 16, 23, 4, 11, 16, 23, 4, 11, 16, 23, 4, 11, 16, 23,
            6, 10, 15, 21, 6, 10, 15, 21, 6, 10, 15, 21, 6, 10, 15, 21]"

definition md5_K :: "nat list" where
  "md5_K = [0xd76aa478, 0xe8c7b756, 0x242070db, 0xc1bdceee, 0xf57c0faf, 0x4787c62a,
            0xa8304613, 0xfd469501, 0x698098d8, 0x8b44f7af, 0xffff5bb1, 0x895cd7be,
            0x6b901122, 0xfd987193, 0xa679438e, 0x49b40821, 0xf61e2562, 0xc040b340,
            0x265e5a51, 0xe9b6c7aa, 0xd62f105d, 0x02441453, 0xd8a1e681, 0xe7d3fbc8,
            0x21e1cde6, 0xc33707d6, 0xf4d50d87, 0x455a14ed, 0xa9e3e905, 0xfcefa3f8,
            0x676f02d9, 0x8d2a4c8a, 0xfffa3942, 0x8771f681, 0x6d9d6122, 0xfde5380c,
            0xa4beea44, 0x4bdecfa9, 0xf6bb4b60, 0xbebfbc70, 0x289b7ec6, 0xeaa127fa,
            0xd4ef3085, 0x04881d05, 0xd9d4d039, 0xe6db99e5, 0x1fa27cf8, 0xc4ac5665,
            0xf4292244, 0x432aff97, 0xab9423a7, 0xfc93a039, 0x655b59c3, 0x8f0ccc92,
            0xffeff47d, 0x85845dd1, 0x6fa87e4f, 0xfe2ce6e0, 0xa3014314, 0x4e0811a1,
            0xf7537e82, 0xbd3af235, 0x2ad7d2bb, 0xeb86d391]"

definition add32 :: "nat \<Rightarrow> nat \<Rightarrow> nat" where
  "add32 a b = (a + b) mod 4294967296"

definition not32 :: "nat \<Rightarrow> nat" where
  "not32 a = 4294967295 - a"

definition leftrotate :: "nat \<Rightarrow> nat \<Rightarrow> nat" where
  "leftrotate x c = (x * 2 ^ c) mod 4294967296 + x div 2 ^ (32 - c)"

definition md5_F :: "nat \<Rightarrow> nat \<Rightarrow> nat \<Rightarrow> nat \<Rightarrow> nat" where
  "md5_F i B C D =
     (if i < 16 then (B AND C) OR (not32 B AND D)
      else if i < 32 then (D AND B) OR (not32 D AND C)
      else if i < 48 then B XOR C XOR D
      else C XOR (B OR not32 D))"

definition md5_g :: "nat \<Rightarrow> nat" where
  "md5_g i =
     (if i < 16 then i
      else if i < 32 then (5 * i + 1) mod 16
      else if i < 48 then (3 * i + 5) mod 16
      else (7 * i) mod 16)"

type_synonym md5_state = "nat \<times> nat \<times> nat \<times> nat"

fun md5_step :: "nat list \<Rightarrow> nat \<Rightarrow> md5_state \<Rightarrow> md5_state" where
  "md5_step M i (A, B, C, D) =
     (D, add32 B (leftrotate (add32 (add32 (add32 (md5_F i B C D) A) (md5_K ! i)) (M ! md5_g i))
                    (md5_s ! i)), B, C)"

text \<open>The indices of the four rounds of sixteen operations.\<close>

definition md5_rounds :: "nat list" where
  "md5_rounds =
     [0, 1, 2, 3, 4, 5, 6, 7, 8, 9, 10, 11, 12, 13, 14, 15] @
     [16, 17, 18, 19, 20, 21, 22, 23, 24, 25, 26, 27, 28, 29, 30, 31] @
     [32, 33, 34, 35, 36, 37, 38, 39, 40, 41, 42, 43, 44, 45, 46, 47] @
     [48, 49, 50, 51, 52, 53, 54, 55, 56, 57, 58, 59, 60, 61, 62, 63]"

fun add_state :: "md5_state \<Rightarrow> md5_state \<Rightarrow> md5_state" where
  "add_state (a0, b0, c0, d0) (A, B, C, D) = (add32 a0 A, add32 b0 B, add32 c0 C, add32 d0 D)"

text \<open>One 512-bit block, given as its sixteen little-endian words.\<close>

definition md5_chunk :: "nat list \<Rightarrow> md5_state \<Rightarrow> md5_state" where
  "md5_chunk M st = add_state st (fold (md5_step M) md5_rounds st)"

fun le_words :: "nat list \<Rightarrow> nat list" where
  "le_words (b0 # b1 # b2 # b3 # bs) =
     (b0 + 256 * b1 + 65536 * b2 + 16777216 * b3) # le_words bs"
| "le_words bs = []"

primrec le_bytes :: "nat \<Rightarrow> nat \<Rightarrow> nat list" where
  "le_bytes 0 v = []"
| "le_bytes (Suc n) v = v mod 256 # le_bytes n (v div 256)"

primrec md5_chunks :: "nat \<Rightarrow> nat list \<Rightarrow> md5_state \<Rightarrow> md5_state" where
  "md5_chunks 0 bs st = st"
| "md5_chunks (Suc n) bs st =
     md5_chunks n (drop 64 bs) (md5_chunk (le_words (take 64 bs)) st)"

definition md5_pad :: "nat list \<Rightarrow> nat list" where
  "md5_pad msg =
     msg @ [128] @ replicate ((119 - length msg mod 64) mod 64) 0 @
     le_bytes 8 ((8 * length msg) mod 18446744073709551616)"

definition md5_init :: md5_state where
  "md5_init = (0x67452301, 0xefcdab89, 0x98badcfe, 0x10325476)"

definition md5_digest :: "nat list \<Rightarrow> md5_state" where
  "md5_digest msg = md5_chunks (length (md5_pad msg) div 64) (md5_pad msg) md5_init"

definition hex_digit :: "nat \<Rightarrow> char" where
  "hex_digit n = ''0123456789abcdef'' ! n"

definition hex_byte :: "nat \<Rightarrow> string" where
  "hex_byte b = [hex_digit (b div 16), hex_digit (b mod 16)]"

fun hexdigest :: "md5_state \<Rightarrow> string" where
  "hexdigest (a, b, c, d) =
     concat (map hex_byte (le_bytes 4 a @ le_bytes 4 b @ le_bytes 4 c @ le_bytes 4 d))"

text \<open>
  \<open>json.dumps(d, sort_keys=True)\<close> for a dictionary of strings, with the default
  separators and \<open>ensure_ascii\<close>. A Python string is modelled by the list of its code
  points, here those below 256; everything outside the printable ASCII range is escaped,
  so that the text is ASCII and \<open>.encode()\<close> gives one byte for each character.
\<close>

definition json_escape_char :: "char \<Rightarrow> string" where
  "json_escape_char c =
     (let n = (of_char c :: nat) in
      if n = 0x22 then [CHR 0x5C, CHR 0x22]
      else if n = 0x5C then [CHR 0x5C, CHR 0x5C]
      else if n = 0x0A then [CHR 0x5C, CHR ''n'']
      else if n = 0x0D then [CHR 0x5C, CHR ''r'']
      else if n = 0x09 then [CHR 0x5C, CHR ''t'']
      else if n = 0x08 then [CHR 0x5C, CHR ''b'']
      else if n = 0x0C then [CHR 0x5C, CHR ''f'']
      else if 0x20 \<le> n \<and> n \<le> 0x7E then [c]
      else [CHR 0x5C, CHR ''u'', CHR ''0'', CHR ''0''] @ hex_byte n)"

definition json_string :: "string \<Rightarrow> string" where
  "json_string s = [CHR 0x22] @ concat (map json_escape_char s) @ [CHR 0x22]"

text \<open>Python's order on strings: lexicographic by code point.\<close>

fun str_less :: "string \<Rightarrow> string \<Rightarrow> bool" where
  "str_less [] [] = False"
| "str_less [] (y # ys) = True"
| "str_less (x # xs) [] = False"
| "str_less (x # xs) (y # ys) =
     ((of_char x :: nat) < of_char y \<or> (x = y \<and> str_less xs ys))"

fun insert_item :: "string \<times> string \<Rightarrow> (string \<times> string) list \<Rightarrow> (string \<times> string) list" where
  "insert_item kv [] = [kv]"
| "insert_item kv (x # xs) =
     (if str_less (fst kv) (fst x) then kv # x # xs else x # insert_item kv xs)"

definition sorted_items :: "(string \<times> string) list \<Rightarrow> (string \<times> string) list" where
  "sorted_items d = foldr insert_item d []"

fun join_items :: "(string \<times> string) list \<Rightarrow> string" where
  "join_items [] = []"
| "join_items [(k, v)] = json_string k @ '': '' @ json_string v"
| "join_items ((k, v) # kvs) = json_string k @ '': '' @ json_string v @ '', '' @ join_items kvs"

definition json_dumps_sort_keys :: "(string \<times> string) list \<Rightarrow> string" where
  "json_dumps_sort_keys d = ''{'' @ join_items (sorted_items d) @ ''}''"

text \<open>\<open>RouteDiscoveryEngine._get_cache_key\<close>.\<close>

definition get_cache_key :: "RouteParams \<Rightarrow> string" where
  "get_cache_key route_params =
     (let key_data = [(''source_chain'', source_chain route_params),
                      (''destination_chain'', destination_chain route_params),
                      (''source_token'', source_token route_params),
                      (''destination_token'', destination_token route_params),
                      (''amount'', amount route_params)];
          key_json = json_dumps_sort_keys key_data;
          key_hash = hexdigest (md5_digest (map of_char key_json))
      in ''route_quote:'' @ key_hash)"

text \<open>
  \<open>str.lower\<close> on the code points below 256, and the relation of the claim: two
  parameter records that differ at most in the letter case of chain names and token
  addresses.
\<close>

definition lower_char :: "char \<Rightarrow> char" where
  "lower_char c =
     (let n = (of_char c :: nat) in
      if (0x41 \<le> n \<and> n \<le> 0x5A) \<or> (0xC0 \<le> n \<and> n \<le> 0xDE \<and> n \<noteq> 0xD7)
      then char_of (n + 32) else c)"

definition same_up_to_case :: "RouteParams \<Rightarrow> RouteParams \<Rightarrow> bool" where
  "same_up_to_case p q =
     (map lower_char (source_chain p) = map lower_char (source_chain q) \<and>
      map lower_char (destination_chain p) = map lower_char (destination_chain q) \<and>
      map lower_char (source_token p) = map lower_char (source_token q) \<and>
      map lower_char (destination_token p) = map lower_char (destination_token q) \<and>
      amount p = amount q \<and> user_address p = user_address q)"

text \<open>The request of the API documentation, with the token given by its symbol.\<close>

definition params_upper :: RouteParams where
  "params_upper =
     \<lparr>source_chain = ''ethereum'', destination_chain = ''arbitrum'',
      source_token = ''USDC'', destination_token = ''USDC'', amount = ''1000000'',
      user_address = None\<rparr>"

definition params_lower :: RouteParams where
  "params_lower = params_upper\<lparr>source_token := ''usdc''\<rparr>"

subsection \<open>Discovery\<close>

text \<open>
  The quote cache is a dictionary from cache keys to an entry with the time of storing
  and the ranked quotes. It is kept as an association list in insertion order, which
  is the order \<open>sorted\<close> keeps among equal timestamps. Times are seconds.
\<close>

record CacheEntry =
  timestamp :: real
  entry_quotes :: "BridgeQuote list"

type_synonym quote_cache = "(string \<times> CacheEntry) list"

definition cache_ttl_seconds :: real where
  "cache_ttl_seconds = 30"

text \<open>\<open>d[k] = v\<close>: an existing key keeps its place, a new key goes last.\<close>

fun dict_set :: "('k \<times> 'v) list \<Rightarrow> 'k \<Rightarrow> 'v \<Rightarrow> ('k \<times> 'v) list" where
  "dict_set [] k v = [(k, v)]"
| "dict_set (p # ps) k v = (if fst p = k then (k, v) # ps else p # dict_set ps k v)"

definition dict_del :: "('k \<times> 'v) list \<Rightarrow> 'k \<Rightarrow> ('k \<times> 'v) list" where
  "dict_del d k = filter (\<lambda>p. fst p \<noteq> k) d"

text \<open>\<open>_get_cached_quote\<close>, with the reading of the clock as an argument.\<close>

definition get_cached_quote ::
  "quote_cache \<Rightarrow> real \<Rightarrow> string \<Rightarrow> BridgeQuote list option \<times> quote_cache" where
  "get_cached_quote quote_cache now cache_key =
     (case map_of quote_cache cache_key of
        None \<Rightarrow> (None, quote_cache)
      | Some cached_data \<Rightarrow>
          if now - timestamp cached_data > cache_ttl_seconds
          then (None, dict_del quote_cache cache_key)
          else (Some (entry_quotes cached_data), quote_cache))"

text \<open>\<open>_cache_quotes\<close>: store, then drop the 100 oldest entries of a cache over 1000.\<close>

definition cache_quotes :: "quote_cache \<Rightarrow> real \<Rightarrow> string \<Rightarrow> BridgeQuote list \<Rightarrow> quote_cache" where
  "cache_quotes quote_cache now cache_key qs =
     (let stored = dict_set quote_cache cache_key \<lparr>timestamp = now, entry_quotes = qs\<rparr>
      in if length stored > 1000
         then let sorted_keys = map fst (sort_key (\<lambda>p. timestamp (snd p)) stored)
              in fold (\<lambda>k d. dict_del d k) (take 100 sorted_keys) stored
         else stored)"

text \<open>
  What one adapter's \<open>get_quote\<close> does under \<open>asyncio.wait_for\<close>: it returns a quote or
  \<open>None\<close>, runs into the timeout, or raises. The adapters talk to the network, so the
  registry of adapters is an argument: each adapter is the outcome it has for given
  route parameters.
\<close>

datatype adapter_outcome = Returned "BridgeQuote option" | TimedOut | Raised

type_synonym adapter = "RouteParams \<Rightarrow> adapter_outcome"

text \<open>\<open>_query_bridge_with_timeout\<close>: both \<open>except\<close> branches return \<open>None\<close>.\<close>

definition query_bridge_with_timeout :: "adapter \<Rightarrow> RouteParams \<Rightarrow> BridgeQuote option" where
  "query_bridge_with_timeout bridge route_params =
     (case bridge route_params of
        Returned quote \<Rightarrow> quote
      | TimedOut \<Rightarrow> None
      | Raised \<Rightarrow> None)"

text \<open>\<open>_query_all_bridges\<close>: the results that are not \<open>None\<close>, in the order of the registry.\<close>

definition query_all_bridges :: "adapter list \<Rightarrow> RouteParams \<Rightarrow> BridgeQuote list" where
  "query_all_bridges bridges route_params =
     concat (map (\<lambda>bridge. case query_bridge_with_timeout bridge route_params of
                               None \<Rightarrow> []
                             | Some quote \<Rightarrow> [quote]) bridges)"

text \<open>
  \<open>discover_routes\<close>: the result, or the exception that leaves it, and the cache after
  the call. The clock is read once for the lookup and once for the storing.
\<close>

definition discover_routes ::
  "adapter list \<Rightarrow> quote_cache \<Rightarrow> real \<Rightarrow> real \<Rightarrow> RouteParams \<Rightarrow> (string \<rightharpoonup> real) option \<Rightarrow>
   (py_error + BridgeQuote list) \<times> quote_cache" where
  "discover_routes bridges quote_cache now_lookup now_store route_params preferences =
     (let cache_key = get_cache_key route_params;
          looked_up = get_cached_quote quote_cache now_lookup cache_key;
          cached = fst looked_up;
          cache1 = snd looked_up
      in if cached \<noteq> None \<and> cached \<noteq> Some []
         then (Inr (case cached of Some qs \<Rightarrow> qs | None \<Rightarrow> []), cache1)
         else
           let found = query_all_bridges bridges route_params
           in if found = [] then (Inr [], cache1)
              else case rank_routes found (case preferences of None \<Rightarrow> Map.empty | Some prefs \<Rightarrow> prefs) of
                     Inl e \<Rightarrow> (Inl e, cache1)
                   | Inr ranked_quotes \<Rightarrow>
                       (Inr ranked_quotes, cache_quotes cache1 now_store cache_key ranked_quotes))"

text \<open>Three adapters without a quote: one declines, one times out, one fails.\<close>

definition declining_adapters :: "adapter list" where
  "declining_adapters = [\<lambda>p. Returned None, \<lambda>p. TimedOut, \<lambda>p. Raised]"

text \<open>Example quotes: a fee, the two gas costs with their sum as total, a time.\<close>

definition example_quote :: "string \<Rightarrow> Decimal \<Rightarrow> Decimal \<Rightarrow> Decimal \<Rightarrow> int \<Rightarrow> Decimal \<Rightarrow> BridgeQuote" where
  "example_quote nm fee gas_src gas_dst seconds rate =
     \<lparr>bridge_name = nm, quote_protocol = nm, route_type = ''direct'',
      estimated_time_seconds = seconds,
      fee_breakdown = \<lparr>bridge_fee_usd = fee, gas_cost_source_usd = gas_src,
        gas_cost_destination_usd = gas_dst, total_cost_usd = fee + gas_src + gas_dst,
        slippage_percentage = None\<rparr>,
      success_rate = rate, steps = [], requires_approval = False,
      minimum_amount = None, maximum_amount = None, quote_id = None, metadata = None\<rparr>"

text \<open>The three quotes of the end-to-end scenario: $5 in 180 s, $8 in 90 s, $6 in 240 s.\<close>

definition quote_5_180 :: BridgeQuote where
  "quote_5_180 = example_quote ''one'' 4 0.5 0.5 180 100"

definition quote_8_90 :: BridgeQuote where
  "quote_8_90 = example_quote ''two'' 7 0.5 0.5 90 100"

definition quote_6_240 :: BridgeQuote where
  "quote_6_240 = example_quote ''three'' 5 0.5 0.5 240 100"

text \<open>A quote whose fee cancels its gas costs: total cost 0.\<close>

definition quote_free :: BridgeQuote where
  "quote_free = example_quote ''free'' (- 0.5) 0.25 0.25 180 99.5"



section \<open>More Python values\<close>

text \<open>
  The floats of the adapters and the router are finite numbers, modelled as reals, and
  the two infinities: \<open>float('inf')\<close> is the default cost of a quote without a cost. The
  numbers inside the clients' quotes are taken to be finite.
\<close>

datatype pyfloat = Finite real | Infinity | NegInfinity

fun pf_less :: "pyfloat \<Rightarrow> pyfloat \<Rightarrow> bool" where
  "pf_less (Finite a) (Finite b) = (a < b)"
| "pf_less (Finite a) Infinity = True"
| "pf_less (Finite a) NegInfinity = False"
| "pf_less Infinity b = False"
| "pf_less NegInfinity NegInfinity = False"
| "pf_less NegInfinity b = True"

text \<open>\<open>a <= b\<close>, \<open>a - b\<close> and \<open>b - a\<close> for a float \<open>a\<close> and a finite \<open>b\<close>.\<close>

fun pf_le_real :: "pyfloat \<Rightarrow> real \<Rightarrow> bool" where
  "pf_le_real (Finite a) b = (a \<le> b)"
| "pf_le_real Infinity b = False"
| "pf_le_real NegInfinity b = True"

fun pf_minus_real :: "pyfloat \<Rightarrow> real \<Rightarrow> pyfloat" where
  "pf_minus_real (Finite a) b = Finite (a - b)"
| "pf_minus_real Infinity b = Infinity"
| "pf_minus_real NegInfinity b = NegInfinity"

fun real_minus_pf :: "real \<Rightarrow> pyfloat \<Rightarrow> pyfloat" where
  "real_minus_pf b (Finite a) = Finite (b - a)"
| "real_minus_pf b Infinity = NegInfinity"
| "real_minus_pf b NegInfinity = Infinity"

text \<open>
  \<open>round(x, 2)\<close>: to the nearest hundredth, a tie to the even one; an infinity is
  returned as it is.
\<close>

definition py_round_hundredths :: "real \<Rightarrow> int" where
  "py_round_hundredths x =
     (let y = x * 100; f = \<lfloor>y\<rfloor>; d = y - of_int f
      in if d < 1 / 2 then f
         else if d > 1 / 2 then f + 1
         else if even f then f else f + 1)"

definition py_round2 :: "real \<Rightarrow> real" where
  "py_round2 x = of_int (py_round_hundredths x) / 100"

fun pf_round2 :: "pyfloat \<Rightarrow> pyfloat" where
  "pf_round2 (Finite x) = Finite (py_round2 x)"
| "pf_round2 Infinity = Infinity"
| "pf_round2 NegInfinity = NegInfinity"

text \<open>Truth value of a float: only zero is false.\<close>

fun pf_truthy :: "pyfloat \<Rightarrow> bool" where
  "pf_truthy (Finite x) = (x \<noteq> 0)"
| "pf_truthy Infinity = True"
| "pf_truthy NegInfinity = True"

text \<open>\<open>.get(key, default)\<close> on a key that may be absent.\<close>

definition get_or :: "'a option \<Rightarrow> 'a \<Rightarrow> 'a" where
  "get_or v dflt = (case v of None \<Rightarrow> dflt | Some x \<Rightarrow> x)"

text \<open>
  \<open>min(xs, key=key)\<close> on a list that is not empty, given as its head and tail: the
  first of the least elements.
\<close>

fun py_min_from :: "('k \<Rightarrow> 'k \<Rightarrow> bool) \<Rightarrow> ('a \<Rightarrow> 'k) \<Rightarrow> 'a \<Rightarrow> 'a list \<Rightarrow> 'a" where
  "py_min_from lt key best [] = best"
| "py_min_from lt key best (x # xs) =
     py_min_from lt key (if lt (key x) (key best) then x else best) xs"

section \<open>Across adapter: \<open>app/services/bridges/across.py\<close>\<close>








section \<open>Multi-hop router: \<open>app/services/multi_hop_router.py\<close>\<close>

text \<open>
  The dictionary a bridge client returns, with the keys and types of the format that
  \<open>BridgeClient.get_quote\<close> documents; a key that is absent is \<open>None\<close>, and
  \<open>q_other_keys\<close> says whether the dictionary has further keys. The dictionary is true
  when it is not empty.
\<close>

record quote_dict =
  q_bridge_name :: "string option"
  q_estimated_cost_usd :: "real option"
  q_estimated_time_minutes :: "int option"
  q_amount_out :: "string option"
  q_gas_cost_usd :: "real option"
  q_gas_cost_native :: "string option"
  q_other_keys :: bool

definition dict_truthy :: "quote_dict \<Rightarrow> bool" where
  "dict_truthy q =
     (q_bridge_name q \<noteq> None \<or> q_estimated_cost_usd q \<noteq> None \<or>
      q_estimated_time_minutes q \<noteq> None \<or> q_amount_out q \<noteq> None \<or>
      q_gas_cost_usd q \<noteq> None \<or> q_gas_cost_native q \<noteq> None \<or> q_other_keys q)"

record RouteHop =
  hop_source_chain :: string
  hop_destination_chain :: string
  hop_bridge_name :: "string option"
  token :: string
  amount_in :: string
  amount_out :: string
  estimated_cost_usd :: real
  estimated_time_minutes :: int
  gas_cost_native :: string
  gas_cost_usd :: real

record MultiHopRoute =
  hops :: "RouteHop list"
  route_total_cost_usd :: real
  total_time_minutes :: int
  final_amount :: string
  slippage_percent :: real
  is_better_than_direct :: bool
  route_savings_usd :: "real option"

text \<open>
  A client's \<open>get_quote\<close> returns a dictionary or \<open>None\<close>, or raises. Four of the ten
  client classes are not part of the sources and the others stand for remote services,
  so the registry \<open>self.bridges\<close> is an argument: the clients by name, in the order of
  the dictionary.
\<close>

datatype client_outcome = Quote "quote_dict option" | Failed

type_synonym client = "string \<Rightarrow> string \<Rightarrow> string \<Rightarrow> string \<Rightarrow> client_outcome"

text \<open>\<open>_get_quote_safe\<close>.\<close>

definition get_quote_safe :: "string \<Rightarrow> client_outcome \<Rightarrow> quote_dict option" where
  "get_quote_safe bridge_nm outcome =
     (case outcome of
        Failed \<Rightarrow> None
      | Quote None \<Rightarrow> None
      | Quote (Some quote) \<Rightarrow>
          Some (if dict_truthy quote then quote\<lparr>q_bridge_name := Some bridge_nm\<rparr> else quote))"

text \<open>\<open>_get_direct_quotes\<close>: the quotes that are not \<open>None\<close>.\<close>

definition get_direct_quotes ::
  "(string \<times> client) list \<Rightarrow> string \<Rightarrow> string \<Rightarrow> string \<Rightarrow> string \<Rightarrow> quote_dict list" where
  "get_direct_quotes clients source_ch destination_ch tok amt =
     concat (map (\<lambda>(bridge_nm, cl).
                    case get_quote_safe bridge_nm (cl source_ch destination_ch tok amt) of
                      None \<Rightarrow> []
                    | Some q \<Rightarrow> [q]) clients)"

text \<open>\<open>lambda x: x.get("estimated_cost_usd", float('inf'))\<close>.\<close>

definition cost_key :: "quote_dict \<Rightarrow> pyfloat" where
  "cost_key x = (case q_estimated_cost_usd x of None \<Rightarrow> Infinity | Some c \<Rightarrow> Finite c)"

text \<open>
  \<open>_try_two_hop_route\<close>. The result comes with the calls of \<open>_get_direct_quotes\<close> that
  were made, each by its arguments. \<open>float\<close> is an argument, \<open>None\<close> where it raises
  \<open>ValueError\<close>; the \<open>except\<close> clause turns every exception into the result \<open>None\<close>.
\<close>

type_synonym quote_query = "string \<times> string \<times> string \<times> string"

definition try_two_hop_route ::
  "(string \<Rightarrow> real option) \<Rightarrow> (string \<times> client) list \<Rightarrow>
   string \<Rightarrow> string \<Rightarrow> string \<Rightarrow> string \<Rightarrow> string \<Rightarrow> MultiHopRoute option \<times> quote_query list" where
  "try_two_hop_route float_of clients source intermediate destination tok amt =
     (let first_query = [(source, intermediate, tok, amt)]
      in case get_direct_quotes clients source intermediate tok amt of
           [] \<Rightarrow> (None, first_query)
         | h # hs \<Rightarrow>
             let hop1_best = py_min_from pf_less cost_key h hs;
                 hop1_output = get_or (q_amount_out hop1_best) ''0''
             in if hop1_output = [] \<or> hop1_output = ''0'' then (None, first_query)
                else
                  let queries = first_query @ [(intermediate, destination, tok, hop1_output)]
                  in case get_direct_quotes clients intermediate destination tok hop1_output of
                       [] \<Rightarrow> (None, queries)
                     | g # gs \<Rightarrow>
                         let hop2_best = py_min_from pf_less cost_key g gs;
                             hop1 = \<lparr>hop_source_chain = source,
                                     hop_destination_chain = intermediate,
                                     hop_bridge_name = q_bridge_name hop1_best,
                                     token = tok, amount_in = amt, amount_out = hop1_output,
                                     estimated_cost_usd = get_or (q_estimated_cost_usd hop1_best) 0,
                                     estimated_time_minutes = get_or (q_estimated_time_minutes hop1_best) 0,
                                     gas_cost_native = get_or (q_gas_cost_native hop1_best) ''0'',
                                     gas_cost_usd = get_or (q_gas_cost_usd hop1_best) 0\<rparr>;
                             hop2 = \<lparr>hop_source_chain = intermediate,
                                     hop_destination_chain = destination,
                                     hop_bridge_name = q_bridge_name hop2_best,
                                     token = tok, amount_in = hop1_output,
                                     amount_out = get_or (q_amount_out hop2_best) ''0'',
                                     estimated_cost_usd = get_or (q_estimated_cost_usd hop2_best) 0,
                                     estimated_time_minutes = get_or (q_estimated_time_minutes hop2_best) 0,
                                     gas_cost_native = get_or (q_gas_cost_native hop2_best) ''0'',
                                     gas_cost_usd = get_or (q_gas_cost_usd hop2_best) 0\<rparr>;
                             total_cost = estimated_cost_usd hop1 + estimated_cost_usd hop2;
                             total_time = estimated_time_minutes hop1 + estimated_time_minutes hop2;
                             final = amount_out hop2
                         in case float_of amt of
                              None \<Rightarrow> (None, queries)
                            | Some amount_float \<Rightarrow>
                                (case float_of final of
                                   None \<Rightarrow> (None, queries)
                                 | Some final_float \<Rightarrow>
                                     (case (if amount_float > 0
                                            then (case py_truediv (amount_float - final_float) amount_float of
                                                    Inl e \<Rightarrow> Inl e
                                                  | Inr ratio \<Rightarrow> Inr (ratio * 100))
                                            else Inr 0) of
                                        Inl e \<Rightarrow> (None, queries)
                                      | Inr slippage \<Rightarrow>
                                          (Some \<lparr>hops = [hop1, hop2],
                                                 route_total_cost_usd = total_cost,
                                                 total_time_minutes = total_time,
                                                 final_amount = final,
                                                 slippage_percent = py_round2 slippage,
                                                 is_better_than_direct = False,
                                                 route_savings_usd = None\<rparr>, queries))))"

definition intermediate_chains :: "string list" where
  "intermediate_chains = [''ethereum'', ''arbitrum'', ''optimism'', ''polygon'', ''base'']"

text \<open>\<open>_find_multi_hop_routes\<close>: the loop over the intermediate chains.\<close>

definition find_multi_hop_routes ::
  "(string \<Rightarrow> real option) \<Rightarrow> (string \<times> client) list \<Rightarrow>
   string \<Rightarrow> string \<Rightarrow> string \<Rightarrow> string \<Rightarrow> int \<Rightarrow> MultiHopRoute list" where
  "find_multi_hop_routes float_of clients source_ch destination_ch tok amt max_hops =
     (if max_hops \<ge> 2
      then concat (map (\<lambda>intermediate.
                          if intermediate = source_ch \<or> intermediate = destination_ch then []
                          else case fst (try_two_hop_route float_of clients source_ch intermediate
                                            destination_ch tok amt) of
                                 None \<Rightarrow> []
                               | Some route \<Rightarrow> [route]) intermediate_chains)
      else [])"

text \<open>
  The dictionary that \<open>find_best_route\<close> returns. A route in it is a client's quote or
  the dictionary that \<open>_format_multi_hop_route\<close> makes of a route, which copies the
  fields of the route and numbers its hops. A key that a \<open>return\<close> does not set is
  \<open>None\<close>; \<open>savings_usd\<close>, when set, is a float or Python's \<open>None\<close>.
\<close>

datatype route_entry = DirectQuote quote_dict | FormattedMultiHop MultiHopRoute

record RouteResult =
  result_route_type :: string
  best_route :: "route_entry option"
  alternatives :: "route_entry list"
  multi_hop_checked :: "bool option"
  direct_savings_usd :: "pyfloat option"
  savings_usd :: "pyfloat option option"

definition find_best_route ::
  "(string \<Rightarrow> real option) \<Rightarrow> (string \<times> client) list \<Rightarrow>
   string \<Rightarrow> string \<Rightarrow> string \<Rightarrow> string \<Rightarrow> int \<Rightarrow> bool \<Rightarrow> RouteResult" where
  "find_best_route float_of clients source_ch destination_ch tok amt max_hops include_multi_hop =
     (let direct_quotes = get_direct_quotes clients source_ch destination_ch tok amt;
          direct_best = (case direct_quotes of
                           [] \<Rightarrow> None
                         | q # qs \<Rightarrow> Some (py_min_from pf_less cost_key q qs));
          direct_cost = (case direct_best of None \<Rightarrow> Infinity | Some b \<Rightarrow> cost_key b);
          direct_true = (case direct_best of None \<Rightarrow> False | Some b \<Rightarrow> dict_truthy b)
      in if \<not> include_multi_hop \<or> max_hops < 2
         then \<lparr>result_route_type = ''direct'', best_route = map_option DirectQuote direct_best,
               alternatives = [], multi_hop_checked = None, direct_savings_usd = None,
               savings_usd = None\<rparr>
         else
           case find_multi_hop_routes float_of clients source_ch destination_ch tok amt max_hops of
             [] \<Rightarrow>
               \<lparr>result_route_type = ''direct'', best_route = map_option DirectQuote direct_best,
                alternatives = [], multi_hop_checked = Some True, direct_savings_usd = None,
                savings_usd = None\<rparr>
           | r # rs \<Rightarrow>
               let best_multi_hop = py_min_from (\<lambda>a b. (a::real) < b) route_total_cost_usd r rs
               in if direct_true \<and> pf_le_real direct_cost (route_total_cost_usd best_multi_hop)
                  then \<lparr>result_route_type = ''direct'',
                        best_route = map_option DirectQuote direct_best,
                        alternatives = [FormattedMultiHop best_multi_hop],
                        multi_hop_checked = Some True,
                        direct_savings_usd =
                          Some (pf_round2 (real_minus_pf (route_total_cost_usd best_multi_hop) direct_cost)),
                        savings_usd = None\<rparr>
                  else
                    let savings = (if direct_true
                                   then Some (pf_minus_real direct_cost (route_total_cost_usd best_multi_hop))
                                   else None)
                    in \<lparr>result_route_type = ''multi-hop'',
                        best_route = Some (FormattedMultiHop best_multi_hop),
                        alternatives = (if direct_true
                                        then (case direct_best of None \<Rightarrow> [] | Some b \<Rightarrow> [DirectQuote b])
                                        else []),
                        multi_hop_checked = Some True,
                        direct_savings_usd = None,
                        savings_usd = Some (case savings of
                                              None \<Rightarrow> None
                                            | Some s \<Rightarrow> if pf_truthy s then Some (pf_round2 s) else None)\<rparr>)"

text \<open>
  Example clients. One quotes a fixed cost and a fixed amount out for one pair of
  chains, and returns \<open>None\<close> for every other pair.
\<close>

definition pair_client :: "string \<Rightarrow> string \<Rightarrow> real \<Rightarrow> string \<Rightarrow> client" where
  "pair_client from_chain to_chain cost_usd out source_ch destination_ch tok amt =
     (if source_ch = from_chain \<and> destination_ch = to_chain
      then Quote (Some \<lparr>q_bridge_name = Some ''client'', q_estimated_cost_usd = Some cost_usd,
                         q_estimated_time_minutes = Some 5, q_amount_out = Some out,
                         q_gas_cost_usd = Some 1, q_gas_cost_native = Some ''0.001'',
                         q_other_keys = True\<rparr>)
      else Quote None)"

text \<open>
  A direct bridge from Ethereum to Arbitrum, and a path over Optimism for $3 and $4.
\<close>

definition example_clients :: "real \<Rightarrow> string \<Rightarrow> string \<Rightarrow> (string \<times> client) list" where
  "example_clients direct_cost first_out second_out =
     [(''across'', pair_client ''ethereum'' ''arbitrum'' direct_cost second_out),
      (''hop'', pair_client ''ethereum'' ''optimism'' 3 first_out),
      (''stargate'', pair_client ''optimism'' ''arbitrum'' 4 second_out)]"

text \<open>The values of \<open>float\<close> on the amounts of the examples.\<close>

definition example_float :: "string \<Rightarrow> real option" where
  "example_float s =
     (if s = ''1000'' then Some 1000
      else if s = ''990'' then Some 990
      else if s = ''980'' then Some 980
      else if s = ''-1000'' then Some (- 1000)
      else if s = ''-990'' then Some (- 990)
      else if s = ''-980'' then Some (- 980)
      else if s = ''1000000000'' then Some 1000000000
      else if s = ''0.001'' then Some 0.001
      else if s = ''0.0005'' then Some 0.0005
      else if s = ''0'' then Some 0
      else None)"

text \<open>The quotes of the example clients, and the route over Optimism made of them.\<close>

definition example_quote_dict :: "string \<Rightarrow> real \<Rightarrow> string \<Rightarrow> quote_dict" where
  "example_quote_dict bridge_nm cost_usd out =
     \<lparr>q_bridge_name = Some bridge_nm, q_estimated_cost_usd = Some cost_usd,
      q_estimated_time_minutes = Some 5, q_amount_out = Some out,
      q_gas_cost_usd = Some 1, q_gas_cost_native = Some ''0.001'', q_other_keys = True\<rparr>"

definition optimism_route :: MultiHopRoute where
  "optimism_route =
     \<lparr>hops =
        [\<lparr>hop_source_chain = ''ethereum'', hop_destination_chain = ''optimism'',
          hop_bridge_name = Some ''hop'', token = ''USDC'', amount_in = ''1000'',
          amount_out = ''990'', estimated_cost_usd = 3, estimated_time_minutes = 5,
          gas_cost_native = ''0.001'', gas_cost_usd = 1\<rparr>,
         \<lparr>hop_source_chain = ''optimism'', hop_destination_chain = ''arbitrum'',
          hop_bridge_name = Some ''stargate'', token = ''USDC'', amount_in = ''990'',
          amount_out = ''980'', estimated_cost_usd = 4, estimated_time_minutes = 5,
          gas_cost_native = ''0.001'', gas_cost_usd = 1\<rparr>],
      route_total_cost_usd = 7, total_time_minutes = 10, final_amount = ''980'',
      slippage_percent = 2, is_better_than_direct = False, route_savings_usd = None\<rparr>"

section \<open>Reliability scorer: \<open>app/services/reliability_scorer.py\<close>\<close>

text \<open>\<open>ReliabilityScorer._get_rating\<close>, the \<open>if\<close>/\<open>elif\<close> chain in source order.\<close>

definition get_rating :: "real \<Rightarrow> string" where
  "get_rating score =
     (if score \<ge> 90 then ''A+''
      else if score \<ge> 85 then ''A''
      else if score \<ge> 80 then ''A-''
      else if score \<ge> 75 then ''B+''
      else if score \<ge> 70 then ''B''
      else if score \<ge> 65 then ''B-''
      else if score \<ge> 60 then ''C+''
      else if score \<ge> 55 then ''C''
      else if score \<ge> 50 then ''C-''
      else ''D'')"

text \<open>
  The columns of \<open>TransactionHistory\<close> (\<open>app/db/models/transactions.py\<close>) that the
  scorer reads: \<open>actual_cost_usd\<close> is a nullable Float, \<open>actual_time_minutes\<close> a nullable
  Integer.
\<close>

record TransactionHistory =
  selected_bridge :: string
  status :: string
  actual_cost_usd :: "real option"
  actual_time_minutes :: "int option"

text \<open>Truth value of a nullable integer: \<open>None\<close> and 0 are false.\<close>

definition truthy_int :: "int option \<Rightarrow> bool" where
  "truthy_int v = (case v of None \<Rightarrow> False | Some n \<Rightarrow> n \<noteq> 0)"

text \<open>
  \<open>ReliabilityScorer._calculate_time_consistency_score\<close>. \<open>variance ** 0.5\<close> is the
  square root of a float that is never negative.
\<close>

definition calculate_time_consistency_score :: "TransactionHistory list \<Rightarrow> real" where
  "calculate_time_consistency_score transactions =
     (let completed = filter (\<lambda>t. status t = ''completed'' \<and> truthy_int (actual_time_minutes t))
                        transactions
      in if length completed < 3 then 50
         else
           let times = map (\<lambda>t. case actual_time_minutes t of Some n \<Rightarrow> n | None \<Rightarrow> 0) completed;
               avg_time = real_of_int (sum_list times) / real (length times)
           in if avg_time = 0 then 50
              else
                let variance = sum_list (map (\<lambda>t. (real_of_int t - avg_time) ^ 2) times) /
                                 real (length times);
                    std_dev = sqrt variance;
                    cv = (std_dev / avg_time) * 100;
                    score = max 0 (100 - (cv * 2))
                in score)"

text \<open>
  The words of the specification: the completion times of a window, their mean, their
  (population) standard deviation, and the coefficient of variation, standard deviation
  divided by mean.
\<close>

definition completion_times :: "TransactionHistory list \<Rightarrow> real list" where
  "completion_times transactions =
     concat (map (\<lambda>t. case actual_time_minutes t of
                         None \<Rightarrow> []
                       | Some n \<Rightarrow> if status t = ''completed'' \<and> n \<noteq> 0 then [real_of_int n] else [])
                 transactions)"

definition spec_mean :: "real list \<Rightarrow> real" where
  "spec_mean xs = sum_list xs / real (length xs)"

definition spec_stddev :: "real list \<Rightarrow> real" where
  "spec_stddev xs = sqrt (sum_list (map (\<lambda>x. (x - spec_mean xs) ^ 2) xs) / real (length xs))"

definition spec_CV :: "real list \<Rightarrow> real" where
  "spec_CV xs = spec_stddev xs / spec_mean xs"

text \<open>Completed transactions with a completion time, for the examples.\<close>

definition completed_in :: "int \<Rightarrow> TransactionHistory" where
  "completed_in minutes =
     \<lparr>selected_bridge = ''across'', status = ''completed'', actual_cost_usd = Some 2,
      actual_time_minutes = Some minutes\<rparr>"

section \<open>Results\<close>

subsection \<open>Route support\<close>

text \<open>
  C9. For every adapter and every pair of chain ids, \<open>supports_route\<close> is true exactly
  when both ids are in the adapter's \<open>supported_chains\<close> and the two ids differ; with
  equal source and destination it is false whatever the adapter supports.
\<close>

theorem supports_route_iff:
  "supports_route b s d = (s \<in> set (supported_chains b) \<and> d \<in> set (supported_chains b) \<and> s \<noteq> d)
   \<and> supports_route b s s = False"
  by (simp add: supports_route_def)

subsection \<open>Letter rating\<close>

text \<open>
  C7. The letter rating of an overall score follows the fixed thresholds
  90, 85, 80, 75, 70, 65, 60, 55, 50 (each bound inclusive below, exclusive above), and
  everything under 50 is D; the scores 90.0, 89.9, 80.0 and 79.9 are rated
  A+, A, A- and B+.
\<close>

theorem get_rating_thresholds:
  "(90 \<le> s \<longrightarrow> get_rating s = ''A+'') \<and>
   (85 \<le> s \<and> s < 90 \<longrightarrow> get_rating s = ''A'') \<and>
   (80 \<le> s \<and> s < 85 \<longrightarrow> get_rating s = ''A-'') \<and>
   (75 \<le> s \<and> s < 80 \<longrightarrow> get_rating s = ''B+'') \<and>
   (70 \<le> s \<and> s < 75 \<longrightarrow> get_rating s = ''B'') \<and>
   (65 \<le> s \<and> s < 70 \<longrightarrow> get_rating s = ''B-'') \<and>
   (60 \<le> s \<and> s < 65 \<longrightarrow> get_rating s = ''C+'') \<and>
   (55 \<le> s \<and> s < 60 \<longrightarrow> get_rating s = ''C'') \<and>
   (50 \<le> s \<and> s < 55 \<longrightarrow> get_rating s = ''C-'') \<and>
   (s < 50 \<longrightarrow> get_rating s = ''D'') \<and>
   get_rating 90.0 = ''A+'' \<and> get_rating 89.9 = ''A'' \<and>
   get_rating 80.0 = ''A-'' \<and> get_rating 79.9 = ''B+''"
  by (simp add: get_rating_def)

theorem get_rating_thresholds_witness:
  "(85::real) \<le> 87.5 \<and> (87.5::real) < 90 \<and> get_rating 87.5 = ''A'' \<and>
   (52::real) < 55 \<and> get_rating 52 = ''C-'' \<and> get_rating 49.99 = ''D''"
  using get_rating_thresholds [of "87.5"] get_rating_thresholds [of 52]
    get_rating_thresholds [of "49.99"]
  by simp

subsection \<open>Ranking\<close>

lemma py_max_or_Max: "xs \<noteq> [] \<Longrightarrow> py_max_or xs d = Max (set xs)"
  by (cases xs) (simp_all add: py_max_or_def Max.set_eq_fold [symmetric])

lemma py_sort_reverse_sorted: "sorted_wrt (\<ge>) (map key (py_sort_reverse key xs))"
proof -
  have "sorted (map key (sort_key key (rev xs)))" by simp
  then have "sorted_wrt (\<lambda>x y. y \<le> x) (rev (map key (sort_key key (rev xs))))"
    by (simp add: sorted_wrt_rev)
  then show ?thesis by (simp add: py_sort_reverse_def rev_map)
qed


lemma mset_py_sort_reverse: "mset (py_sort_reverse key xs) = mset xs"
  by (simp add: py_sort_reverse_def)

lemma score_quote_spec:
  assumes "mc = Max (set (map (\<lambda>x. of_rat (total_cost_usd (fee_breakdown x))) quotes))"
    and "mt = Max (set (map estimated_time_seconds quotes))"
    and "mc \<noteq> 0" and "mt \<noteq> 0"
  shows "score_quote (weights_of prefs) mc mt q = Inr (spec_weighted_total quotes prefs q)"
  using assms
  by (simp add: score_quote_def py_truediv_def float_of_Decimal_def weights_of_def
      spec_weighted_total_def spec_cost_score_def spec_speed_score_def Let_def mult.commute)

lemma score_quotes_map:
  assumes "\<And>q. score_quote w mc mt q = Inr (f q)"
  shows "score_quotes w mc mt qs = Inr (map (\<lambda>q. (f q, q)) qs)"
  by (induction qs) (simp_all add: assms)


lemma scored_pairs:
  assumes "mset ys = mset (map (\<lambda>q. (f q, q)) qs)"
  shows "map fst ys = map f (map snd ys)"
proof -
  have "set ys = set (map (\<lambda>q. (f q, q)) qs)" using assms by (metis set_mset_mset)
  then have "\<forall>p \<in> set ys. fst p = f (snd p)" by auto
  then show ?thesis by simp
qed




text \<open>
  C1 (as amended). For every non-empty batch of quotes whose largest total cost and
  largest time are not zero, the scoring loop gives each quote the weighted total of
  the specification (cost and speed against the batch maxima, reliability the success
  rate, liquidity 100, weights 0.40, 0.30, 0.20, 0.10 unless the preferences override
  them), and \<open>_rank_routes\<close> returns the quotes of the batch ordered by that total,
  largest first.
\<close>

theorem rank_routes_scored_and_sorted:
  assumes "quotes \<noteq> []"
    and "Max (set (map (\<lambda>x. of_rat (total_cost_usd (fee_breakdown x))) quotes)) \<noteq> (0::real)"
    and "Max (set (map estimated_time_seconds quotes)) \<noteq> 0"
  shows "\<exists>ranked.
     score_quotes (weights_of prefs)
       (py_max_or (map (\<lambda>q. float_of_Decimal (total_cost_usd (fee_breakdown q))) quotes) 1)
       (py_max_or (map estimated_time_seconds quotes) 1) quotes =
       Inr (map (\<lambda>q. (spec_weighted_total quotes prefs q, q)) quotes) \<and>
     rank_routes quotes prefs = Inr ranked \<and>
     mset ranked = mset quotes \<and>
     sorted_wrt (\<ge>) (map (spec_weighted_total quotes prefs) ranked)"
proof -
  let ?costs = "map (\<lambda>q. float_of_Decimal (total_cost_usd (fee_breakdown q))) quotes"
  let ?times = "map estimated_time_seconds quotes"
  let ?f = "spec_weighted_total quotes prefs"
  let ?scored = "map (\<lambda>q. (?f q, q)) quotes"
  have mc: "py_max_or ?costs 1 = Max (set (map (\<lambda>x. of_rat (total_cost_usd (fee_breakdown x))) quotes))"
    using assms(1) by (simp add: py_max_or_Max float_of_Decimal_def)
  have mt: "py_max_or ?times 1 = Max (set ?times)"
    using assms(1) by (simp add: py_max_or_Max)
  have one: "\<And>q. score_quote (weights_of prefs) (py_max_or ?costs 1) (py_max_or ?times 1) q = Inr (?f q)"
    using score_quote_spec [OF mc mt] assms(2,3) mc mt by simp
  have scored: "score_quotes (weights_of prefs) (py_max_or ?costs 1) (py_max_or ?times 1) quotes = Inr ?scored"
    by (rule score_quotes_map [OF one])
  let ?sorted = "py_sort_reverse fst ?scored"
  have rank: "rank_routes quotes prefs = Inr (map snd ?sorted)"
    using assms(1) scored by (simp add: rank_routes_def Let_def)
  have perm: "mset (map snd ?sorted) = mset quotes"
  proof -
    have "mset (map snd ?sorted) = image_mset snd (mset ?scored)"
      by (simp add: mset_py_sort_reverse)
    also have "\<dots> = mset quotes"
      by (simp add: image_mset.compositionality comp_def)
    finally show ?thesis .
  qed
  have keys: "map fst ?sorted = map ?f (map snd ?sorted)"
    by (rule scored_pairs [where qs = quotes]) (simp add: mset_py_sort_reverse)
  have "sorted_wrt (\<ge>) (map fst ?sorted)"
    by (rule py_sort_reverse_sorted)
  then have sorted: "sorted_wrt (\<ge>) (map ?f (map snd ?sorted))"
    using keys by simp
  show ?thesis using scored rank perm sorted by blast
qed




theorem rank_routes_scored_and_sorted_witness:
  "rank_routes [quote_6_240, quote_8_90, quote_5_180] Map.empty =
     Inr [quote_5_180, quote_8_90, quote_6_240] \<and>
   mset [quote_5_180, quote_8_90, quote_6_240] = mset [quote_6_240, quote_8_90, quote_5_180] \<and>
   sorted_wrt (\<ge>) (map (spec_weighted_total [quote_6_240, quote_8_90, quote_5_180] Map.empty)
     [quote_5_180, quote_8_90, quote_6_240])"
proof -
  let ?batch = "[quote_6_240, quote_8_90, quote_5_180]"
  have h1: "?batch \<noteq> []" by simp
  have h2: "Max (set (map (\<lambda>x. of_rat (total_cost_usd (fee_breakdown x))) ?batch)) \<noteq> (0::real)"
    by (simp add: example_quote_def quote_5_180_def quote_8_90_def quote_6_240_def)
  have h3: "Max (set (map estimated_time_seconds ?batch)) \<noteq> 0"
    by (simp add: example_quote_def quote_5_180_def quote_8_90_def quote_6_240_def)
  obtain ranked where r: "rank_routes ?batch Map.empty = Inr ranked"
    "mset ranked = mset ?batch"
    "sorted_wrt (\<ge>) (map (spec_weighted_total ?batch Map.empty) ranked)"
    using rank_routes_scored_and_sorted [OF h1 h2 h3, of Map.empty] by blast
  have e: "rank_routes ?batch Map.empty = Inr [quote_5_180, quote_8_90, quote_6_240]"
    by (simp add: rank_routes_def example_quote_def quote_5_180_def quote_8_90_def
        quote_6_240_def py_max_or_def score_quote_def py_truediv_def float_of_Decimal_def
        weights_of_def dict_get_def py_sort_reverse_def Let_def)
  from r(1) e have "ranked = [quote_5_180, quote_8_90, quote_6_240]" by simp
  with r e show ?thesis by simp
qed

text \<open>
  The claim as stated covers every non-empty batch. A batch whose largest total cost is
  0 makes the first division of the loop raise: no list is returned.
\<close>

theorem rank_routes_zero_max_counterexample:
  "rank_routes [quote_free] Map.empty = Inl ZeroDivisionError"
  by (simp add: rank_routes_def example_quote_def quote_free_def py_max_or_def
      score_quote_def py_truediv_def float_of_Decimal_def)




subsection \<open>Time consistency\<close>

lemma times_eq:
  "map real_of_int (map (\<lambda>t. case actual_time_minutes t of Some n \<Rightarrow> n | None \<Rightarrow> 0)
     (filter (\<lambda>t. status t = ''completed'' \<and> truthy_int (actual_time_minutes t)) txs))
   = completion_times txs"
  by (induction txs) (auto simp: completion_times_def truthy_int_def split: option.splits)

lemma sum_list_of_int: "real_of_int (sum_list xs) = sum_list (map real_of_int xs)"
  by (induction xs) simp_all

lemma time_consistency_unfold:
  "calculate_time_consistency_score txs =
     (if length (completion_times txs) < 3 then 50
      else if spec_mean (completion_times txs) = 0 then 50
      else max 0 (100 - (spec_stddev (completion_times txs) / spec_mean (completion_times txs)) * 100 * 2))"
proof -
  let ?completed = "filter (\<lambda>t. status t = ''completed'' \<and> truthy_int (actual_time_minutes t)) txs"
  let ?times = "map (\<lambda>t. case actual_time_minutes t of Some n \<Rightarrow> n | None \<Rightarrow> 0) ?completed"
  let ?cts = "completion_times txs"
  have ts: "map real_of_int ?times = ?cts" by (rule times_eq)
  have len: "length ?completed = length ?cts"
    using arg_cong [OF ts, of length] by simp
  have len2: "length ?times = length ?cts"
    using len by simp
  have avg: "real_of_int (sum_list ?times) / real (length ?cts) = spec_mean ?cts"
    unfolding spec_mean_def ts [symmetric] by (simp add: sum_list_of_int)
  have var: "sum_list (map (\<lambda>t. (real_of_int t - m) ^ 2) ?times) =
             sum_list (map (\<lambda>x. (x - m) ^ 2) ?cts)" for m
    unfolding ts [symmetric] by (simp add: comp_def)
  show ?thesis
    unfolding calculate_time_consistency_score_def Let_def len len2 avg var spec_stddev_def
    by (rule refl)
qed

text \<open>
  C6 (as amended). For every window with at least 3 completed transactions carrying a
  completion time and a mean time that is not zero, the time consistency score is
  100 minus twice the coefficient of variation, floored at 0, where the coefficient of
  variation is taken as a percentage: 100 times the (population) standard deviation
  divided by the mean. With fewer than 3 such samples the score is 50.
\<close>

theorem time_consistency_percent_cv:
  "(length (completion_times txs) < 3 \<longrightarrow> calculate_time_consistency_score txs = 50) \<and>
   (3 \<le> length (completion_times txs) \<and> spec_mean (completion_times txs) \<noteq> 0 \<longrightarrow>
      calculate_time_consistency_score txs =
        max 0 (100 - 2 * (100 * spec_CV (completion_times txs))))"
  by (simp add: time_consistency_unfold spec_CV_def mult.commute)

theorem time_consistency_percent_cv_witness:
  "3 \<le> length (completion_times [completed_in 3, completed_in 3, completed_in 5, completed_in 5]) \<and>
   spec_mean (completion_times [completed_in 3, completed_in 3, completed_in 5, completed_in 5]) = 4 \<and>
   100 * spec_CV (completion_times [completed_in 3, completed_in 3, completed_in 5, completed_in 5]) = 25 \<and>
   calculate_time_consistency_score
     [completed_in 3, completed_in 3, completed_in 5, completed_in 5] = 50 \<and>
   length (completion_times [completed_in 3, completed_in 5]) < 3 \<and>
   calculate_time_consistency_score [completed_in 3, completed_in 5] = 50"
proof -
  let ?w = "[completed_in 3, completed_in 3, completed_in 5, completed_in 5]"
  have ts: "completion_times ?w = [3, 3, 5, 5]"
    by (simp add: completion_times_def completed_in_def)
  have m: "spec_mean (completion_times ?w) = 4"
    by (simp add: ts spec_mean_def)
  have cv: "100 * spec_CV (completion_times ?w) = 25"
    by (simp add: ts spec_CV_def spec_stddev_def spec_mean_def power2_eq_square)
  have short: "length (completion_times [completed_in 3, completed_in 5]) < 3"
    by (simp add: completion_times_def completed_in_def)
  have n: "3 \<le> length (completion_times ?w)"
    by (simp add: ts)
  have "calculate_time_consistency_score ?w = max 0 (100 - 2 * (100 * spec_CV (completion_times ?w)))"
    using time_consistency_percent_cv [of ?w] n m by simp
  moreover have "calculate_time_consistency_score [completed_in 3, completed_in 5] = 50"
    using time_consistency_percent_cv [of "[completed_in 3, completed_in 5]"] short by blast
  ultimately show ?thesis using n m cv short by simp
qed

text \<open>
  The claim as stated takes the coefficient of variation as the plain ratio. For the
  completion times 3, 3, 5, 5 (mean 4, standard deviation 1) that formula gives 99.5;
  the code returns 50.
\<close>

theorem time_consistency_ratio_cv_counterexample:
  "calculate_time_consistency_score
     [completed_in 3, completed_in 3, completed_in 5, completed_in 5] = 50 \<and>
   max 0 (100 - 2 * spec_CV (completion_times
     [completed_in 3, completed_in 3, completed_in 5, completed_in 5])) = 99.5"
  by (simp add: calculate_time_consistency_score_def completed_in_def truthy_int_def
      completion_times_def spec_CV_def spec_stddev_def spec_mean_def Let_def power2_eq_square)

subsection \<open>Cache key\<close>

lemmas md5_round_defs = md5_chunk_def md5_rounds_def md5_K_def md5_s_def leftrotate_def
  md5_F_def md5_g_def add32_def not32_def

lemma md5_block_1: "md5_chunk [1835082363, 1953396079, 572537378, 808464433, 573583408, 1679958060, 1769239397, 1769234798, 1667198575, 1852399976, 572537378, 1768059489, 1836413556, 572533794, 1953719652, 1952542313] (1732584193, 4023233417, 2562383102, 271733878) = (3416099394, 2926430209, 341480513, 1728514591)"
  by (simp add: md5_round_defs)

lemma md5_block_2: "md5_chunk [1601073001, 1701539700, 540680814, 1146311970, 539763267, 1970238242, 1600480114, 1767991395, 540680814, 1752458530, 1969582693, 539763309, 1970238242, 1600480114, 1701539700, 540680814] (3416099394, 2926430209, 341480513, 1728514591) = (1152996843, 3566049806, 2918008945, 630099879)"
  by (simp add: md5_round_defs)

lemma md5_block_3_upper: "md5_chunk [1146311970, 2155684419, 0, 0, 0, 0, 0, 0, 0, 0, 0, 0, 0, 0, 1080, 0] (1152996843, 3566049806, 2918008945, 630099879) = (2406820568, 3249874950, 4217301516, 4226218745)"
  by (simp add: md5_round_defs)

lemma md5_block_3_lower: "md5_chunk [1685288226, 2155684451, 0, 0, 0, 0, 0, 0, 0, 0, 0, 0, 0, 0, 1080, 0] (1152996843, 3566049806, 2918008945, 630099879) = (3563524613, 2130314806, 3583895081, 3276195660)"
  by (simp add: md5_round_defs)

lemma md5_chunks_numeral:
  "md5_chunks (numeral k) bs st =
     md5_chunks (pred_numeral k) (drop 64 bs) (md5_chunk (le_words (take 64 bs)) st)"
  unfolding numeral_eq_Suc [of k] by (rule md5_chunks.simps)

lemma le_bytes_numeral: "le_bytes (numeral k) v = v mod 256 # le_bytes (pred_numeral k) (v div 256)"
  unfolding numeral_eq_Suc [of k] by (rule le_bytes.simps)

lemma replicate_numeral: "replicate (numeral k) x = x # replicate (pred_numeral k) x"
  unfolding numeral_eq_Suc [of k] by (rule replicate.simps)

lemma key_json_upper:
  "json_dumps_sort_keys [(''source_chain'', ''ethereum''), (''destination_chain'', ''arbitrum''),
     (''source_token'', ''USDC''), (''destination_token'', ''USDC''), (''amount'', ''1000000'')] =
   ''{'' @ json_string ''amount'' @ '': '' @ json_string ''1000000'' @ '', '' @
   json_string ''destination_chain'' @ '': '' @ json_string ''arbitrum'' @ '', '' @
   json_string ''destination_token'' @ '': '' @ json_string ''USDC'' @ '', '' @
   json_string ''source_chain'' @ '': '' @ json_string ''ethereum'' @ '', '' @
   json_string ''source_token'' @ '': '' @ json_string ''USDC'' @ ''}''"
  by (simp add: json_dumps_sort_keys_def sorted_items_def)

lemma cache_key_upper: "get_cache_key params_upper = ''route_quote:d82a758f0628b5c10cea5efbf9fae6fb''"
  by (simp add: get_cache_key_def params_upper_def json_dumps_sort_keys_def sorted_items_def
      json_string_def json_escape_char_def md5_digest_def md5_pad_def md5_init_def
      md5_chunks_numeral le_bytes_numeral replicate_numeral hex_byte_def hex_digit_def
      md5_block_1 md5_block_2 md5_block_3_upper)

lemma cache_key_lower: "get_cache_key params_lower = ''route_quote:051267d43606fa7e29e69dd54cc746c3''"
  by (simp add: get_cache_key_def params_lower_def params_upper_def json_dumps_sort_keys_def
      sorted_items_def json_string_def json_escape_char_def md5_digest_def md5_pad_def
      md5_init_def md5_chunks_numeral le_bytes_numeral replicate_numeral hex_byte_def
      hex_digit_def md5_block_1 md5_block_2 md5_block_3_lower)

text \<open>
  C5 (as amended). The cache key is computed from the route parameters as they are
  given: the JSON text of the five fields source chain, destination chain, source
  token, destination token and amount (a string), with no case folding, hashed with
  MD5. Two parameter records that agree on these five fields get the same key, whatever
  their user address.
\<close>

theorem cache_key_same_fields:
  assumes "source_chain p = source_chain q"
    and "destination_chain p = destination_chain q"
    and "source_token p = source_token q"
    and "destination_token p = destination_token q"
    and "amount p = amount q"
  shows "get_cache_key p = get_cache_key q"
  using assms by (simp add: get_cache_key_def)

theorem cache_key_same_fields_witness:
  "user_address (params_upper\<lparr>user_address := Some ''0x742d35Cc''\<rparr>) \<noteq> user_address params_upper \<and>
   get_cache_key (params_upper\<lparr>user_address := Some ''0x742d35Cc''\<rparr>) = get_cache_key params_upper"
  using cache_key_same_fields [of "params_upper\<lparr>user_address := Some ''0x742d35Cc''\<rparr>" params_upper]
  by (simp add: params_upper_def)

text \<open>
  The claim as stated: parameters that differ only in letter case get the same key.
  The requests for \<open>USDC\<close> and for \<open>usdc\<close> from ethereum to arbitrum differ in the
  case of the source token only, and their keys differ.
\<close>

theorem cache_key_case_counterexample:
  "same_up_to_case params_upper params_lower \<and>
   get_cache_key params_upper = ''route_quote:d82a758f0628b5c10cea5efbf9fae6fb'' \<and>
   get_cache_key params_lower = ''route_quote:051267d43606fa7e29e69dd54cc746c3'' \<and>
   get_cache_key params_upper \<noteq> get_cache_key params_lower"
proof -
  have same: "same_up_to_case params_upper params_lower"
    by (simp add: same_up_to_case_def params_lower_def params_upper_def lower_char_def
        char_of_def bit_Suc_0_iff)
  have differ: "get_cache_key params_upper \<noteq> get_cache_key params_lower"
    unfolding cache_key_upper cache_key_lower by simp
  show ?thesis
    using same differ cache_key_upper cache_key_lower by simp
qed

subsection \<open>Discovery without quotes\<close>

lemma query_all_bridges_none:
  assumes "\<forall>bridge \<in> set bridges. query_bridge_with_timeout bridge route_params = None"
  shows "query_all_bridges bridges route_params = []"
  using assms by (induction bridges) (simp_all add: query_all_bridges_def)

text \<open>
  C4 (as amended). For every discovery call in which the cache has no fresh entry and
  no adapter produces a quote (each one declines, fails or times out), \<open>discover_routes\<close>
  returns the empty list as its ordinary result: no exception leaves it and nothing is
  stored in the cache. What to do with the empty list is the caller's decision.
\<close>

theorem discover_routes_no_quotes:
  assumes "\<forall>bridge \<in> set bridges. query_bridge_with_timeout bridge route_params = None"
    and "fst (get_cached_quote quote_cache now_lookup (get_cache_key route_params)) = None"
  shows "discover_routes bridges quote_cache now_lookup now_store route_params preferences =
           (Inr [], snd (get_cached_quote quote_cache now_lookup (get_cache_key route_params)))"
  using query_all_bridges_none [OF assms(1)] assms(2)
  by (simp add: discover_routes_def Let_def)

theorem discover_routes_no_quotes_witness:
  "map (\<lambda>bridge. query_bridge_with_timeout bridge params_upper) declining_adapters =
     [None, None, None] \<and>
   fst (get_cached_quote [] 0 (get_cache_key params_upper)) = None \<and>
   discover_routes declining_adapters [] 0 0 params_upper None = (Inr [], [])"
proof -
  have outcomes: "map (\<lambda>bridge. query_bridge_with_timeout bridge params_upper) declining_adapters =
      [None, None, None]"
    by (simp add: declining_adapters_def query_bridge_with_timeout_def)
  have h1: "\<forall>bridge \<in> set declining_adapters. query_bridge_with_timeout bridge params_upper = None"
    by (simp add: declining_adapters_def query_bridge_with_timeout_def)
  have h2: "fst (get_cached_quote [] 0 (get_cache_key params_upper)) = None"
    by (simp add: get_cached_quote_def)
  have "discover_routes declining_adapters [] 0 0 params_upper None =
          (Inr [], snd (get_cached_quote [] 0 (get_cache_key params_upper)))"
    by (rule discover_routes_no_quotes [OF h1 h2])
  then have "discover_routes declining_adapters [] 0 0 params_upper None = (Inr [], [])"
    by (simp add: get_cached_quote_def)
  with outcomes h2 show ?thesis by blast
qed

text \<open>
  The claim as stated asks for a distinct error in place of an ordinary value. With
  three adapters that decline, time out and fail, the call returns the empty list, and
  no exception.
\<close>

theorem discover_routes_no_error_counterexample:
  "fst (discover_routes declining_adapters [] 0 0 params_upper None) = Inr [] \<and>
   (\<forall>e. fst (discover_routes declining_adapters [] 0 0 params_upper None) \<noteq> Inl e)"
  by (simp add: discover_routes_def Let_def get_cached_quote_def query_all_bridges_def
      query_bridge_with_timeout_def declining_adapters_def)

subsection \<open>Two-hop search: skipped intermediates and the slippage guard\<close>

lemma py_round2_0: "py_round2 0 = 0"
  by (simp add: py_round2_def py_round_hundredths_def)

text \<open>
  C10. When the cheapest first-hop quote has no \<open>amount_out\<close>, or an empty one, or
  \<open>"0"\<close>, \<open>_try_two_hop_route\<close> returns \<open>None\<close> after the first query alone: the second
  hop is not queried. And when both hops are quoted and the input amount is not
  positive, a route is returned whose slippage is 0: the division is not reached.
\<close>

theorem two_hop_skip_and_slippage_guard:
  "(get_direct_quotes clients source intermediate tok amt = h # hs \<and>
    (q_amount_out (py_min_from pf_less cost_key h hs) = None \<or>
     q_amount_out (py_min_from pf_less cost_key h hs) = Some [] \<or>
     q_amount_out (py_min_from pf_less cost_key h hs) = Some ''0'') \<longrightarrow>
    try_two_hop_route float_of clients source intermediate destination tok amt =
      (None, [(source, intermediate, tok, amt)])) \<and>
   (get_direct_quotes clients source intermediate tok amt = h # hs \<and>
    q_amount_out (py_min_from pf_less cost_key h hs) = Some out \<and> out \<noteq> [] \<and> out \<noteq> ''0'' \<and>
    get_direct_quotes clients intermediate destination tok out = g # gs \<and>
    float_of amt = Some amount_float \<and> amount_float \<le> 0 \<and>
    float_of (get_or (q_amount_out (py_min_from pf_less cost_key g gs)) ''0'') = Some final_float \<longrightarrow>
    (\<exists>route. try_two_hop_route float_of clients source intermediate destination tok amt =
        (Some route, [(source, intermediate, tok, amt), (intermediate, destination, tok, out)]) \<and>
      slippage_percent route = 0))"
proof (intro conjI impI)
  assume "get_direct_quotes clients source intermediate tok amt = h # hs \<and>
    (q_amount_out (py_min_from pf_less cost_key h hs) = None \<or>
     q_amount_out (py_min_from pf_less cost_key h hs) = Some [] \<or>
     q_amount_out (py_min_from pf_less cost_key h hs) = Some ''0'')"
  then show "try_two_hop_route float_of clients source intermediate destination tok amt =
      (None, [(source, intermediate, tok, amt)])"
    by (auto simp add: try_two_hop_route_def Let_def get_or_def)
next
  assume a: "get_direct_quotes clients source intermediate tok amt = h # hs \<and>
    q_amount_out (py_min_from pf_less cost_key h hs) = Some out \<and> out \<noteq> [] \<and> out \<noteq> ''0'' \<and>
    get_direct_quotes clients intermediate destination tok out = g # gs \<and>
    float_of amt = Some amount_float \<and> amount_float \<le> 0 \<and>
    float_of (get_or (q_amount_out (py_min_from pf_less cost_key g gs)) ''0'') = Some final_float"
  then have guard: "\<not> amount_float > 0" by simp
  from a guard show "\<exists>route. try_two_hop_route float_of clients source intermediate destination tok amt =
        (Some route, [(source, intermediate, tok, amt), (intermediate, destination, tok, out)]) \<and>
      slippage_percent route = 0"
    by (simp add: try_two_hop_route_def Let_def get_or_def py_round2_0)
qed

theorem two_hop_skip_and_slippage_guard_witness:
  "get_direct_quotes (example_clients 10 ''0'' ''980'') ''ethereum'' ''optimism'' ''USDC'' ''1000'' =
     [\<lparr>q_bridge_name = Some ''hop'', q_estimated_cost_usd = Some 3,
       q_estimated_time_minutes = Some 5, q_amount_out = Some ''0'',
       q_gas_cost_usd = Some 1, q_gas_cost_native = Some ''0.001'', q_other_keys = True\<rparr>] \<and>
   try_two_hop_route example_float (example_clients 10 ''0'' ''980'')
       ''ethereum'' ''optimism'' ''arbitrum'' ''USDC'' ''1000'' =
     (None, [(''ethereum'', ''optimism'', ''USDC'', ''1000'')]) \<and>
   example_float ''-1000'' = Some (- 1000) \<and>
   snd (try_two_hop_route example_float (example_clients 10 ''-990'' ''-980'')
       ''ethereum'' ''optimism'' ''arbitrum'' ''USDC'' ''-1000'') =
     [(''ethereum'', ''optimism'', ''USDC'', ''-1000''), (''optimism'', ''arbitrum'', ''USDC'', ''-990'')] \<and>
   map_option slippage_percent
     (fst (try_two_hop_route example_float (example_clients 10 ''-990'' ''-980'')
       ''ethereum'' ''optimism'' ''arbitrum'' ''USDC'' ''-1000'')) = Some 0"
proof -
  let ?hop = "\<lambda>out. \<lparr>q_bridge_name = Some ''hop'', q_estimated_cost_usd = Some 3,
       q_estimated_time_minutes = Some 5, q_amount_out = Some out,
       q_gas_cost_usd = Some 1, q_gas_cost_native = Some ''0.001'', q_other_keys = True\<rparr>"
  let ?stargate = "\<lparr>q_bridge_name = Some ''stargate'', q_estimated_cost_usd = Some 4,
       q_estimated_time_minutes = Some 5, q_amount_out = Some ''-980'',
       q_gas_cost_usd = Some 1, q_gas_cost_native = Some ''0.001'', q_other_keys = True\<rparr>"
  have first: "get_direct_quotes (example_clients 10 out ''980'') ''ethereum'' ''optimism'' ''USDC'' ''1000'' =
      [?hop out]" for out
    by (simp add: get_direct_quotes_def example_clients_def pair_client_def get_quote_safe_def
        dict_truthy_def)
  have first_neg: "get_direct_quotes (example_clients 10 ''-990'' ''-980'') ''ethereum'' ''optimism'' ''USDC'' ''-1000'' =
      [?hop ''-990'']"
    by (simp add: get_direct_quotes_def example_clients_def pair_client_def get_quote_safe_def
        dict_truthy_def)
  have second_neg: "get_direct_quotes (example_clients 10 ''-990'' ''-980'') ''optimism'' ''arbitrum'' ''USDC'' ''-990'' =
      [?stargate]"
    by (simp add: get_direct_quotes_def example_clients_def pair_client_def get_quote_safe_def
        dict_truthy_def)
  have floats: "example_float ''-1000'' = Some (- 1000)" "example_float ''-980'' = Some (- 980)"
    by (simp_all add: example_float_def)
  note skip_rule = two_hop_skip_and_slippage_guard
    [of "example_clients 10 ''0'' ''980''" "''ethereum''" "''optimism''" "''USDC''" "''1000''"
        "?hop ''0''" "[]" example_float "''arbitrum''"]
  have skip: "try_two_hop_route example_float (example_clients 10 ''0'' ''980'')
       ''ethereum'' ''optimism'' ''arbitrum'' ''USDC'' ''1000'' =
     (None, [(''ethereum'', ''optimism'', ''USDC'', ''1000'')])"
    using skip_rule first [of "''0''"] by simp
  note guard_rule = two_hop_skip_and_slippage_guard
    [of "example_clients 10 ''-990'' ''-980''" "''ethereum''" "''optimism''" "''USDC''" "''-1000''"
        "?hop ''-990''" "[]" example_float "''arbitrum''" "''-990''" "?stargate" "[]" "- 1000" "- 980"]
  have "\<exists>route. try_two_hop_route example_float (example_clients 10 ''-990'' ''-980'')
          ''ethereum'' ''optimism'' ''arbitrum'' ''USDC'' ''-1000'' =
        (Some route, [(''ethereum'', ''optimism'', ''USDC'', ''-1000''),
                      (''optimism'', ''arbitrum'', ''USDC'', ''-990'')]) \<and>
        slippage_percent route = 0"
    using guard_rule first_neg second_neg floats by (simp add: get_or_def)
  then have guarded: "snd (try_two_hop_route example_float (example_clients 10 ''-990'' ''-980'')
       ''ethereum'' ''optimism'' ''arbitrum'' ''USDC'' ''-1000'') =
     [(''ethereum'', ''optimism'', ''USDC'', ''-1000''), (''optimism'', ''arbitrum'', ''USDC'', ''-990'')] \<and>
     map_option slippage_percent
     (fst (try_two_hop_route example_float (example_clients 10 ''-990'' ''-980'')
       ''ethereum'' ''optimism'' ''arbitrum'' ''USDC'' ''-1000'')) = Some 0"
    by auto
  from first [of "''0''"] skip floats(1) guarded show ?thesis by blast
qed

subsection \<open>The example clients\<close>

lemma example_direct_quotes:
  "get_direct_quotes (example_clients c out1 out2) ''ethereum'' ''arbitrum'' tok amt =
     [example_quote_dict ''across'' c out2]"
  "get_direct_quotes (example_clients c out1 out2) ''ethereum'' ''optimism'' tok amt =
     [example_quote_dict ''hop'' 3 out1]"
  "get_direct_quotes (example_clients c out1 out2) ''optimism'' ''arbitrum'' tok amt =
     [example_quote_dict ''stargate'' 4 out2]"
  "get_direct_quotes (example_clients c out1 out2) ''ethereum'' ''polygon'' tok amt = []"
  "get_direct_quotes (example_clients c out1 out2) ''ethereum'' ''base'' tok amt = []"
  by (simp_all add: get_direct_quotes_def example_clients_def pair_client_def get_quote_safe_def
      dict_truthy_def example_quote_dict_def)

lemma py_round2_2: "py_round2 2 = 2"
  by (simp add: py_round2_def py_round_hundredths_def)

lemma example_two_hop:
  "try_two_hop_route example_float (example_clients c ''990'' ''980'')
       ''ethereum'' ''optimism'' ''arbitrum'' ''USDC'' ''1000'' =
     (Some optimism_route,
      [(''ethereum'', ''optimism'', ''USDC'', ''1000''), (''optimism'', ''arbitrum'', ''USDC'', ''990'')])"
  by (simp add: try_two_hop_route_def Let_def example_direct_quotes example_quote_dict_def get_or_def
      example_float_def py_truediv_def py_round2_2 optimism_route_def)

lemma example_no_two_hop:
  "fst (try_two_hop_route example_float (example_clients c out1 out2)
       ''ethereum'' ''polygon'' ''arbitrum'' tok amt) = None"
  "fst (try_two_hop_route example_float (example_clients c out1 out2)
       ''ethereum'' ''base'' ''arbitrum'' tok amt) = None"
  by (simp_all add: try_two_hop_route_def Let_def example_direct_quotes)

lemma example_multi_hop:
  "find_multi_hop_routes example_float (example_clients c ''990'' ''980'')
       ''ethereum'' ''arbitrum'' ''USDC'' ''1000'' 2 = [optimism_route]"
  by (simp add: find_multi_hop_routes_def intermediate_chains_def example_two_hop
      example_no_two_hop)

subsection \<open>Totals of fees and of hops\<close>







subsection \<open>Direct route against the cheapest two-hop route\<close>

lemma py_min_from_mem: "py_min_from lt key b xs \<in> set (b # xs)"
  by (induction xs arbitrary: b) auto

lemma py_min_from_least:
  assumes irrefl: "\<And>a. \<not> lt a a"
    and trans: "\<And>a b c. lt a b \<Longrightarrow> lt b c \<Longrightarrow> lt a c"
    and negtrans: "\<And>a b c. \<not> lt a b \<Longrightarrow> \<not> lt b c \<Longrightarrow> \<not> lt a c"
  shows "x \<in> set (b # xs) \<Longrightarrow> \<not> lt (key x) (key (py_min_from lt key b xs))"
proof (induction xs arbitrary: b x)
  case Nil
  then show ?case by (simp add: irrefl)
next
  case (Cons y ys)
  let ?b = "if lt (key y) (key b) then y else b"
  let ?m = "py_min_from lt key ?b ys"
  have step: "py_min_from lt key b (y # ys) = ?m" by simp
  have new: "\<not> lt (key ?b) (key ?m)" by (rule Cons.IH) simp
  consider "x \<in> set ys" | "x = b" | "x = y" using Cons.prems by auto
  then have "\<not> lt (key x) (key ?m)"
  proof cases
    case 1
    then show ?thesis by (intro Cons.IH) simp
  next
    case 2
    show ?thesis
    proof (cases "lt (key y) (key b)")
      case True
      with new have "\<not> lt (key y) (key ?m)" by simp
      with True trans show ?thesis unfolding 2 by blast
    next
      case False
      with new show ?thesis unfolding 2 by simp
    qed
  next
    case 3
    show ?thesis
    proof (cases "lt (key y) (key b)")
      case True
      with new show ?thesis unfolding 3 by simp
    next
      case False
      with new have "\<not> lt (key b) (key ?m)" by simp
      with False negtrans show ?thesis unfolding 3 by blast
    qed
  qed
  then show ?case unfolding step .
qed

lemma cheapest_route:
  "x \<in> set (r # rs) \<Longrightarrow>
     route_total_cost_usd (py_min_from (\<lambda>a b. (a::real) < b) route_total_cost_usd r rs) \<le>
       route_total_cost_usd x"
  using py_min_from_least [of "\<lambda>a b. (a::real) < b" x r rs route_total_cost_usd]
  by (simp add: not_less)

lemma pf_truthy_minus: "\<not> pf_le_real a b \<Longrightarrow> pf_truthy (pf_minus_real a b)"
  by (cases a) simp_all

lemma py_round2_3: "py_round2 3 = 3"
  by (simp add: py_round2_def py_round_hundredths_def)

text \<open>
  C3 (as amended). When the call searches for multi-hop routes, the cheapest direct quote
  is a dictionary that is not empty, and at least one two-hop route is found: if the
  direct cost is at most the total cost of the cheapest two-hop route, the result is the
  direct quote, with that route as the alternative and the cost delta, rounded to cents,
  under \<open>direct_savings_usd\<close>; otherwise the result is the cheapest two-hop route, with
  the direct quote as the alternative and \<open>savings_usd\<close> the direct cost minus the
  two-hop cost, rounded to cents.
\<close>

theorem find_best_route_direct_or_two_hop:
  assumes "include_multi_hop"
    and "get_direct_quotes clients source_ch destination_ch tok amt = q # qs"
    and "dict_truthy (py_min_from pf_less cost_key q qs)"
    and "find_multi_hop_routes float_of clients source_ch destination_ch tok amt max_hops = r # rs"
  shows "let direct_best = py_min_from pf_less cost_key q qs;
             direct_cost = cost_key direct_best;
             best_multi_hop = py_min_from (\<lambda>a b. (a::real) < b) route_total_cost_usd r rs;
             multihop_cost = route_total_cost_usd best_multi_hop;
             result = find_best_route float_of clients source_ch destination_ch tok amt
                        max_hops include_multi_hop
         in best_multi_hop \<in> set (r # rs) \<and>
            (\<forall>x \<in> set (r # rs). multihop_cost \<le> route_total_cost_usd x) \<and>
            (if pf_le_real direct_cost multihop_cost
             then result =
                    \<lparr>result_route_type = ''direct'',
                     best_route = Some (DirectQuote direct_best),
                     alternatives = [FormattedMultiHop best_multi_hop],
                     multi_hop_checked = Some True,
                     direct_savings_usd = Some (pf_round2 (real_minus_pf multihop_cost direct_cost)),
                     savings_usd = None\<rparr>
             else result =
                    \<lparr>result_route_type = ''multi-hop'',
                     best_route = Some (FormattedMultiHop best_multi_hop),
                     alternatives = [DirectQuote direct_best],
                     multi_hop_checked = Some True,
                     direct_savings_usd = None,
                     savings_usd = Some (Some (pf_round2 (pf_minus_real direct_cost multihop_cost)))\<rparr>)"
proof -
  from assms(4) have hops: "\<not> max_hops < 2"
    by (auto simp add: find_multi_hop_routes_def split: if_splits)
  show ?thesis
    unfolding Let_def
  proof (intro conjI)
    show "py_min_from (\<lambda>a b. a < b) route_total_cost_usd r rs \<in> set (r # rs)"
      by (rule py_min_from_mem)
    show "\<forall>x \<in> set (r # rs).
            route_total_cost_usd (py_min_from (\<lambda>a b. a < b) route_total_cost_usd r rs) \<le>
              route_total_cost_usd x"
      using cheapest_route by blast
    show "if pf_le_real (cost_key (py_min_from pf_less cost_key q qs))
               (route_total_cost_usd (py_min_from (\<lambda>a b. a < b) route_total_cost_usd r rs))
          then find_best_route float_of clients source_ch destination_ch tok amt max_hops
                 include_multi_hop =
                 \<lparr>result_route_type = ''direct'',
                  best_route = Some (DirectQuote (py_min_from pf_less cost_key q qs)),
                  alternatives =
                    [FormattedMultiHop (py_min_from (\<lambda>a b. a < b) route_total_cost_usd r rs)],
                  multi_hop_checked = Some True,
                  direct_savings_usd =
                    Some (pf_round2 (real_minus_pf
                      (route_total_cost_usd (py_min_from (\<lambda>a b. a < b) route_total_cost_usd r rs))
                      (cost_key (py_min_from pf_less cost_key q qs)))),
                  savings_usd = None\<rparr>
          else find_best_route float_of clients source_ch destination_ch tok amt max_hops
                 include_multi_hop =
                 \<lparr>result_route_type = ''multi-hop'',
                  best_route =
                    Some (FormattedMultiHop (py_min_from (\<lambda>a b. a < b) route_total_cost_usd r rs)),
                  alternatives = [DirectQuote (py_min_from pf_less cost_key q qs)],
                  multi_hop_checked = Some True,
                  direct_savings_usd = None,
                  savings_usd =
                    Some (Some (pf_round2 (pf_minus_real
                      (cost_key (py_min_from pf_less cost_key q qs))
                      (route_total_cost_usd
                        (py_min_from (\<lambda>a b. a < b) route_total_cost_usd r rs)))))\<rparr>"
      using assms hops by (simp add: find_best_route_def Let_def pf_truthy_minus)
  qed
qed

theorem find_best_route_direct_or_two_hop_witness:
  "get_direct_quotes (example_clients 10 ''990'' ''980'') ''ethereum'' ''arbitrum'' ''USDC'' ''1000'' =
     [example_quote_dict ''across'' 10 ''980''] \<and>
   dict_truthy (example_quote_dict ''across'' 10 ''980'') \<and>
   find_multi_hop_routes example_float (example_clients 10 ''990'' ''980'')
     ''ethereum'' ''arbitrum'' ''USDC'' ''1000'' 2 = [optimism_route] \<and>
   find_best_route example_float (example_clients 10 ''990'' ''980'')
     ''ethereum'' ''arbitrum'' ''USDC'' ''1000'' 2 True =
     \<lparr>result_route_type = ''multi-hop'',
      best_route = Some (FormattedMultiHop optimism_route),
      alternatives = [DirectQuote (example_quote_dict ''across'' 10 ''980'')],
      multi_hop_checked = Some True,
      direct_savings_usd = None,
      savings_usd = Some (Some (Finite 3))\<rparr>"
proof -
  have direct: "get_direct_quotes (example_clients 10 ''990'' ''980'')
      ''ethereum'' ''arbitrum'' ''USDC'' ''1000'' = [example_quote_dict ''across'' 10 ''980'']"
    by (rule example_direct_quotes)
  have truthy: "dict_truthy (example_quote_dict ''across'' 10 ''980'')"
    by (simp add: dict_truthy_def example_quote_dict_def)
  then have best: "dict_truthy (py_min_from pf_less cost_key (example_quote_dict ''across'' 10 ''980'') [])"
    by simp
  have multi: "find_multi_hop_routes example_float (example_clients 10 ''990'' ''980'')
     ''ethereum'' ''arbitrum'' ''USDC'' ''1000'' 2 = [optimism_route]"
    by (rule example_multi_hop)
  have costs: "cost_key (example_quote_dict ''across'' 10 ''980'') = Finite 10"
      "route_total_cost_usd optimism_route = 7"
    by (simp_all add: cost_key_def example_quote_dict_def optimism_route_def)
  from find_best_route_direct_or_two_hop [OF TrueI direct best multi]
  have "find_best_route example_float (example_clients 10 ''990'' ''980'')
     ''ethereum'' ''arbitrum'' ''USDC'' ''1000'' 2 True =
     \<lparr>result_route_type = ''multi-hop'',
      best_route = Some (FormattedMultiHop optimism_route),
      alternatives = [DirectQuote (example_quote_dict ''across'' 10 ''980'')],
      multi_hop_checked = Some True,
      direct_savings_usd = None,
      savings_usd = Some (Some (Finite 3))\<rparr>"
    by (simp add: Let_def costs py_round2_3)
  with direct truthy multi show ?thesis by blast
qed

text \<open>
  The claim as stated gives the savings as the plain difference of the two costs. With a
  direct quote of $10.0078125 and the route over Optimism for $7, the router returns
  the two-hop route with \<open>savings_usd\<close> 3.01, not 3.0078125.
\<close>

theorem find_best_route_savings_counterexample:
  "map cost_key (get_direct_quotes (example_clients (1281 / 128) ''990'' ''980'')
      ''ethereum'' ''arbitrum'' ''USDC'' ''1000'') = [Finite (1281 / 128)] \<and>
   map route_total_cost_usd (find_multi_hop_routes example_float
      (example_clients (1281 / 128) ''990'' ''980'') ''ethereum'' ''arbitrum'' ''USDC'' ''1000'' 2) = [7] \<and>
   result_route_type (find_best_route example_float (example_clients (1281 / 128) ''990'' ''980'')
      ''ethereum'' ''arbitrum'' ''USDC'' ''1000'' 2 True) = ''multi-hop'' \<and>
   savings_usd (find_best_route example_float (example_clients (1281 / 128) ''990'' ''980'')
      ''ethereum'' ''arbitrum'' ''USDC'' ''1000'' 2 True) = Some (Some (Finite (301 / 100))) \<and>
   savings_usd (find_best_route example_float (example_clients (1281 / 128) ''990'' ''980'')
      ''ethereum'' ''arbitrum'' ''USDC'' ''1000'' 2 True) \<noteq> Some (Some (Finite (1281 / 128 - 7)))"
proof -
  have round: "py_round2 (1281 / 128 - 7) = 301 / 100"
    by (simp add: py_round2_def py_round_hundredths_def)
  have costs: "cost_key (example_quote_dict ''across'' (1281 / 128) ''980'') = Finite (1281 / 128)"
      "route_total_cost_usd optimism_route = 7"
    by (simp_all add: cost_key_def example_quote_dict_def optimism_route_def)
  have truthy: "dict_truthy (example_quote_dict ''across'' (1281 / 128) ''980'')"
    by (simp add: dict_truthy_def example_quote_dict_def)
  have result: "find_best_route example_float (example_clients (1281 / 128) ''990'' ''980'')
      ''ethereum'' ''arbitrum'' ''USDC'' ''1000'' 2 True =
     \<lparr>result_route_type = ''multi-hop'',
      best_route = Some (FormattedMultiHop optimism_route),
      alternatives = [DirectQuote (example_quote_dict ''across'' (1281 / 128) ''980'')],
      multi_hop_checked = Some True,
      direct_savings_usd = None,
      savings_usd = Some (Some (Finite (301 / 100)))\<rparr>"
    using round
    by (simp add: find_best_route_def Let_def example_direct_quotes example_multi_hop costs truthy)
  show ?thesis
    by (simp add: result example_direct_quotes example_multi_hop costs)
qed

end
